theory Spec2Isabelle
  imports Complex_Main "HOL-Library.AList"
begin

section \<open>Tensors and the operations of the host framework\<close>

text \<open>
  The model file \<^verbatim>\<open>paddlemm/models/sgraf.py\<close> computes with tensors of rank one to
  three. A tensor is a nested list of real numbers, outermost axis first. Sums, products,
  quotients, exponentials and square roots are those of the real numbers; the one
  operation whose rounding is written out is \<^verbatim>\<open>nn.Sigmoid\<close>, where the number format of
  the tensors decides whether a score can reach 0 or 1. The
  elementary operations of the framework that the file calls (matrix product, transpose,
  softmax, the activations) are written out; its learned layers with a state of their own
  (embedding table, GRU, batch normalisation) are parameters of the model.
\<close>

type_synonym vec = "real list"
type_synonym mat = "real list list"
type_synonym tensor3 = "real list list list"

definition dot :: "vec \<Rightarrow> vec \<Rightarrow> real" where
  "dot a b = sum_list (map2 (*) a b)"

text \<open>\<^verbatim>\<open>paddle.matmul\<close> of two matrices: row times column.\<close>

definition matmul :: "mat \<Rightarrow> mat \<Rightarrow> mat" where
  "matmul A B = map (\<lambda>a. map (\<lambda>c. dot a c) (transpose B)) A"

text \<open>\<^verbatim>\<open>paddle.bmm\<close>: the matrix product of each pair of a batch.\<close>

definition bmm :: "tensor3 \<Rightarrow> tensor3 \<Rightarrow> tensor3" where
  "bmm X Y = map2 matmul X Y"

text \<open>\<^verbatim>\<open>paddle.transpose(x, (0, 2, 1))\<close>: the last two axes are exchanged.\<close>

definition transpose021 :: "tensor3 \<Rightarrow> tensor3" where
  "transpose021 X = map transpose X"

definition softmax :: "vec \<Rightarrow> vec" where
  "softmax xs = map (\<lambda>x. exp x / sum_list (map exp xs)) xs"

definition sigmoid :: "real \<Rightarrow> real" where
  "sigmoid x = 1 / (1 + exp (- x))"

text \<open>
  The tensors of the framework hold numbers of the IEEE format binary32, its default type.
  \<open>float32 x\<close> is the number of that format nearest to \<open>x\<close>, for \<open>x\<close> below the largest
  finite number: 24 significant bits, the least exponent \<open>-126\<close>, and a tie goes to the
  even neighbour (\<open>rne\<close> rounds a real to an integer in that way). \<^verbatim>\<open>nn.Sigmoid\<close> on such a
  tensor returns numbers of the format: the sigmoid rounded.
\<close>

definition rne :: "real \<Rightarrow> int" where
  "rne x =
     (if x - of_int \<lfloor>x\<rfloor> < 1 / 2 then \<lfloor>x\<rfloor>
      else if 1 / 2 < x - of_int \<lfloor>x\<rfloor> then \<lfloor>x\<rfloor> + 1
      else if even \<lfloor>x\<rfloor> then \<lfloor>x\<rfloor> else \<lfloor>x\<rfloor> + 1)"

definition float32 :: "real \<Rightarrow> real" where
  "float32 x =
     (if x = 0 then 0
      else (let e = max (- 126) \<lfloor>log 2 \<bar>x\<bar>\<rfloor>;
                ulp = 2 powr (of_int e - 23)
            in of_int (rne (x / ulp)) * ulp))"

definition Sigmoid :: "real \<Rightarrow> real" where
  "Sigmoid x = float32 (sigmoid x)"

definition relu :: "real \<Rightarrow> real" where
  "relu x = max 0 x"

definition LeakyReLU :: "real \<Rightarrow> real \<Rightarrow> real" where
  "LeakyReLU slope x = (if 0 \<le> x then x else slope * x)"

text \<open>\<^verbatim>\<open>paddle.mean(x, 1)\<close> of one sample: the mean of its rows, column by column.\<close>

definition mean_rows :: "mat \<Rightarrow> vec" where
  "mean_rows X = map (\<lambda>c. sum_list c / real (length X)) (transpose X)"

text \<open>\<^verbatim>\<open>x.sum(axis=1)\<close> of one sample: the sum of its rows, column by column.\<close>

definition sum_rows :: "mat \<Rightarrow> vec" where
  "sum_rows X = map sum_list (transpose X)"

text \<open>
  \<^verbatim>\<open>x.shape[1]\<close> and \<^verbatim>\<open>x.shape[2]\<close>, read off the first sample of the batch (the
  nested list of an empty batch does not record them).
\<close>

definition shape1 :: "'a list list \<Rightarrow> nat" where
  "shape1 X = (case X of [] \<Rightarrow> 0 | x # _ \<Rightarrow> length x)"

definition shape2 :: "'a list list list \<Rightarrow> nat" where
  "shape2 X = (case X of [] \<Rightarrow> 0 | x # _ \<Rightarrow> shape1 x)"

text \<open>
  \<^verbatim>\<open>paddle.concat(ts, axis=0)\<close> and \<^verbatim>\<open>paddle.concat(ts, axis=1)\<close> of a list of tensors,
  \<^verbatim>\<open>x.unsqueeze(0)\<close> and \<^verbatim>\<open>x.unsqueeze(1)\<close>.
\<close>

definition concat0 :: "'a list list \<Rightarrow> 'a list" where
  "concat0 ts = concat ts"

definition concat1 :: "'a list list list \<Rightarrow> 'a list list" where
  "concat1 ts = map concat (transpose ts)"

definition unsqueeze0 :: "'a \<Rightarrow> 'a list" where
  "unsqueeze0 x = [x]"

definition unsqueeze1 :: "'a list \<Rightarrow> 'a list list" where
  "unsqueeze1 X = map (\<lambda>x. [x]) X"

text \<open>
  \<^verbatim>\<open>x.squeeze(k)\<close> where axis \<open>k\<close> has size one (every call of the file is on the
  one-column output of a \<^verbatim>\<open>Linear(_, 1)\<close> or on a one-row product).
\<close>

definition squeeze1 :: "'a list list \<Rightarrow> 'a list" where
  "squeeze1 X = map hd X"

definition squeeze2 :: "'a list list list \<Rightarrow> 'a list list" where
  "squeeze2 X = map (map hd) X"

text \<open>
  \<^verbatim>\<open>paddle.subtract\<close> of two matrices with broadcasting along the first axis, and
  \<^verbatim>\<open>paddle.pow(_, 2)\<close>.
\<close>

definition subtract2 :: "mat \<Rightarrow> mat \<Rightarrow> mat" where
  "subtract2 A B =
     (if length B = 1 then map (\<lambda>a. map2 (-) a (B ! 0)) A
      else if length A = 1 then map (\<lambda>b. map2 (-) (A ! 0) b) B
      else map2 (map2 (-)) A B)"

definition subtract3 :: "tensor3 \<Rightarrow> tensor3 \<Rightarrow> tensor3" where
  "subtract3 X Y = map2 (map2 (map2 (-))) X Y"

definition pow2 :: "vec \<Rightarrow> vec" where
  "pow2 x = map (\<lambda>u. u ^ 2) x"

subsection \<open>Dropout\<close>

text \<open>
  A layer runs in training or in evaluation mode. \<^verbatim>\<open>nn.Dropout(p)\<close> is the identity in
  evaluation mode; in training mode it zeroes the entries that its random mask drops and
  divides the others by \<open>1 - p\<close>. The mask drawn by the random generator is an argument:
  it tells for each index whether the entry is kept.
\<close>

datatype mode = Train | Eval

definition Dropout :: "mode \<Rightarrow> real \<Rightarrow> (nat \<Rightarrow> bool) \<Rightarrow> vec \<Rightarrow> vec" where
  "Dropout md p keep x =
     (case md of Eval \<Rightarrow> x
      | Train \<Rightarrow> map (\<lambda>k. if keep k then x ! k / (1 - p) else 0) [0..<length x])"

definition Dropout2 :: "mode \<Rightarrow> real \<Rightarrow> (nat \<Rightarrow> nat \<Rightarrow> bool) \<Rightarrow> mat \<Rightarrow> mat" where
  "Dropout2 md p keep X =
     (case md of Eval \<Rightarrow> X
      | Train \<Rightarrow> map (\<lambda>j. Dropout Train p (keep j) (X ! j)) [0..<length X])"

definition Dropout3 :: "mode \<Rightarrow> real \<Rightarrow> (nat \<Rightarrow> nat \<Rightarrow> nat \<Rightarrow> bool) \<Rightarrow> tensor3 \<Rightarrow> tensor3" where
  "Dropout3 md p keep X =
     (case md of Eval \<Rightarrow> X
      | Train \<Rightarrow> map (\<lambda>i. Dropout2 Train p (keep i) (X ! i)) [0..<length X])"

text \<open>
  The masks of one forward pass, one for each call of a dropout layer; the layer of
  \<^verbatim>\<open>TextSA\<close> is called once for each caption and draws a mask at each call.
\<close>

record noise =
  txt_drop :: "nat \<Rightarrow> nat \<Rightarrow> nat \<Rightarrow> bool"
  v_local_drop :: "nat \<Rightarrow> nat \<Rightarrow> nat \<Rightarrow> bool"
  v_global_drop :: "nat \<Rightarrow> nat \<Rightarrow> bool"
  t_local_drop :: "nat \<Rightarrow> nat \<Rightarrow> nat \<Rightarrow> nat \<Rightarrow> bool"
  t_global_drop :: "nat \<Rightarrow> nat \<Rightarrow> nat \<Rightarrow> bool"

subsection \<open>Linear layers\<close>

text \<open>
  \<^verbatim>\<open>nn.Linear(n, m)\<close> holds a weight of shape \<open>(n, m)\<close> and a bias of length \<open>m\<close>, and maps
  a vector \<open>x\<close> to \<open>x W + b\<close>; on a tensor of higher rank it acts on the last axis.
  Entry \<open>j\<close> of the result is the product of \<open>x\<close> with column \<open>j\<close> of the weight plus
  entry \<open>j\<close> of the bias; the columns are read for a weight of the shape \<open>linear_shape\<close>
  below, which is the shape that the framework creates.
\<close>

record linear =
  weight :: mat
  bias :: vec

definition Linear :: "linear \<Rightarrow> vec \<Rightarrow> vec" where
  "Linear l x = map (\<lambda>j. dot x (map (\<lambda>r. r ! j) (weight l)) + bias l ! j) [0..<length (bias l)]"

text \<open>Shapes: a matrix of \<open>n\<close> rows of length \<open>m\<close>, a batch of \<open>b\<close> such matrices.\<close>

definition rect :: "nat \<Rightarrow> nat \<Rightarrow> 'a list list \<Rightarrow> bool" where
  "rect n m A = (length A = n \<and> list_all (\<lambda>r. length r = m) A)"

definition rect3 :: "nat \<Rightarrow> nat \<Rightarrow> nat \<Rightarrow> 'a list list list \<Rightarrow> bool" where
  "rect3 b n m X = (length X = b \<and> list_all (rect n m) X)"


subsection \<open>Normalisation helpers\<close>

text \<open>
  Modelled from the spec: \<^verbatim>\<open>l2norm\<close> and \<^verbatim>\<open>l1norm\<close> are imported from
  \<^verbatim>\<open>layers/normalize.py\<close>, which is not among the sources. A vector is divided by its
  Euclidean norm (by the sum of its absolute values), and the divisor carries the guard
  \<open>eps\<close> against a zero vector. The value of the guard is a parameter.
\<close>

definition norm2 :: "vec \<Rightarrow> real" where
  "norm2 x = sqrt (sum_list (map (\<lambda>u. u ^ 2) x))"

definition l2norm :: "real \<Rightarrow> vec \<Rightarrow> vec" where
  "l2norm eps x = map (\<lambda>u. u / (norm2 x + eps)) x"

definition l1norm :: "real \<Rightarrow> vec \<Rightarrow> vec" where
  "l1norm eps x = map (\<lambda>u. u / (sum_list (map abs x) + eps)) x"

section \<open>GraphReasoning\<close>

record graph_reasoning =
  graph_query_w :: linear
  graph_key_w :: linear
  sim_graph_w :: linear

text \<open>The edge matrix \<^verbatim>\<open>sim_edge\<close> of \<^verbatim>\<open>GraphReasoning.forward\<close>.\<close>

definition GraphReasoning_edge :: "graph_reasoning \<Rightarrow> tensor3 \<Rightarrow> tensor3" where
  "GraphReasoning_edge g sim_emb =
     (let sim_query = map (map (Linear (graph_query_w g))) sim_emb;
          sim_key = map (map (Linear (graph_key_w g))) sim_emb
      in map (map softmax) (bmm sim_query (transpose021 sim_key)))"

text \<open>The propagated nodes: \<^verbatim>\<open>paddle.bmm(sim_edge, sim_emb)\<close>.\<close>

definition GraphReasoning_propagate :: "graph_reasoning \<Rightarrow> tensor3 \<Rightarrow> tensor3" where
  "GraphReasoning_propagate g sim_emb = bmm (GraphReasoning_edge g sim_emb) sim_emb"

definition GraphReasoning_forward :: "graph_reasoning \<Rightarrow> tensor3 \<Rightarrow> tensor3" where
  "GraphReasoning_forward g sim_emb =
     map (map (\<lambda>v. map relu (Linear (sim_graph_w g) v))) (GraphReasoning_propagate g sim_emb)"

section \<open>SCAN attention\<close>

text \<open>
  The attention weights of \<^verbatim>\<open>SCAN_attention\<close> after the softmax over the source
  positions, of shape \<open>(batch, queryL, sourceL)\<close>. The parameter \<^verbatim>\<open>eps\<close> of the source
  function is not used by its body; the \<open>eps\<close> below is the guard of \<^verbatim>\<open>l2norm\<close>.
\<close>

definition SCAN_attention_weights :: "real \<Rightarrow> tensor3 \<Rightarrow> tensor3 \<Rightarrow> real \<Rightarrow> tensor3" where
  "SCAN_attention_weights eps query context smooth =
     (let queryT = transpose021 query;
          attn = bmm context queryT;
          attn = map (map (map (LeakyReLU (1 / 10)))) attn;
          attn = map (map (l2norm eps)) attn;
          attn = transpose021 attn
      in map (map (\<lambda>r. softmax (map (\<lambda>u. u * smooth) r))) attn)"

definition SCAN_attention :: "real \<Rightarrow> tensor3 \<Rightarrow> tensor3 \<Rightarrow> real \<Rightarrow> tensor3" where
  "SCAN_attention eps query context smooth =
     (let attn = SCAN_attention_weights eps query context smooth;
          attnT = transpose021 attn;
          contextT = transpose021 context;
          weightedContext = bmm contextT attnT;
          weightedContext = transpose021 weightedContext
      in map (map (l2norm eps)) weightedContext)"

section \<open>Self-attention pooling: VisualSA and TextSA\<close>

text \<open>
  \<^verbatim>\<open>nn.BatchNorm1D\<close> is a layer of the framework with learned scale and shift and with
  running statistics; it is a parameter, a function of the mode and of its input.
\<close>

record visual_sa =
  v_local_linear :: linear
  v_local_bn :: "mode \<Rightarrow> tensor3 \<Rightarrow> tensor3"
  v_global_linear :: linear
  v_global_bn :: "mode \<Rightarrow> mat \<Rightarrow> mat"
  v_common_linear :: linear
  v_dropout_rate :: real

definition VisualSA_embedding_local :: "mode \<Rightarrow> noise \<Rightarrow> visual_sa \<Rightarrow> tensor3 \<Rightarrow> tensor3" where
  "VisualSA_embedding_local md nz sa x =
     Dropout3 md (v_dropout_rate sa) (v_local_drop nz)
       (map (map (map tanh)) (v_local_bn sa md (map (map (Linear (v_local_linear sa))) x)))"

definition VisualSA_embedding_global :: "mode \<Rightarrow> noise \<Rightarrow> visual_sa \<Rightarrow> mat \<Rightarrow> mat" where
  "VisualSA_embedding_global md nz sa x =
     Dropout2 md (v_dropout_rate sa) (v_global_drop nz)
       (map (map tanh) (v_global_bn sa md (map (Linear (v_global_linear sa)) x)))"

text \<open>The pooling shared by both layers: \<^verbatim>\<open>(weights.unsqueeze(2) * local).sum(axis=1)\<close>.\<close>

definition weighted_sum :: "vec \<Rightarrow> mat \<Rightarrow> vec" where
  "weighted_sum w X = sum_rows (map2 (\<lambda>wr row. map (\<lambda>u. wr * u) row) w X)"

text \<open>The attention weights shared by both layers, from the two embeddings.\<close>

definition SA_weights :: "linear \<Rightarrow> tensor3 \<Rightarrow> mat \<Rightarrow> mat" where
  "SA_weights common_linear l_emb g_emb =
     (let g_emb = concat1 (replicate (shape1 l_emb) (unsqueeze1 g_emb));
          common = map2 (map2 (map2 (*))) l_emb g_emb;
          weights = squeeze2 (map (map (Linear common_linear)) common)
      in map softmax weights)"

definition VisualSA_weights :: "mode \<Rightarrow> noise \<Rightarrow> visual_sa \<Rightarrow> tensor3 \<Rightarrow> mat \<Rightarrow> mat" where
  "VisualSA_weights md nz sa local raw_global =
     (let l_emb = VisualSA_embedding_local md nz sa local;
          g_emb = VisualSA_embedding_global md nz sa raw_global
      in SA_weights (v_common_linear sa) l_emb g_emb)"

definition VisualSA_forward :: "mode \<Rightarrow> noise \<Rightarrow> real \<Rightarrow> visual_sa \<Rightarrow> tensor3 \<Rightarrow> mat \<Rightarrow> mat" where
  "VisualSA_forward md nz eps sa local raw_global =
     (let weights = VisualSA_weights md nz sa local raw_global;
          new_global = map2 weighted_sum weights local
      in map (l2norm eps) new_global)"

record text_sa =
  t_local_linear :: linear
  t_global_linear :: linear
  t_common_linear :: linear
  t_dropout_rate :: real

text \<open>\<open>i\<close> is the index of the caption: each call of the layer draws masks of its own.\<close>

definition TextSA_embedding_local :: "mode \<Rightarrow> noise \<Rightarrow> nat \<Rightarrow> text_sa \<Rightarrow> tensor3 \<Rightarrow> tensor3" where
  "TextSA_embedding_local md nz i sa x =
     Dropout3 md (t_dropout_rate sa) (t_local_drop nz i)
       (map (map (map tanh)) (map (map (Linear (t_local_linear sa))) x))"

definition TextSA_embedding_global :: "mode \<Rightarrow> noise \<Rightarrow> nat \<Rightarrow> text_sa \<Rightarrow> mat \<Rightarrow> mat" where
  "TextSA_embedding_global md nz i sa x =
     Dropout2 md (t_dropout_rate sa) (t_global_drop nz i)
       (map (map tanh) (map (Linear (t_global_linear sa)) x))"

definition TextSA_weights :: "mode \<Rightarrow> noise \<Rightarrow> nat \<Rightarrow> text_sa \<Rightarrow> tensor3 \<Rightarrow> mat \<Rightarrow> mat" where
  "TextSA_weights md nz i sa local raw_global =
     (let l_emb = TextSA_embedding_local md nz i sa local;
          g_emb = TextSA_embedding_global md nz i sa raw_global
      in SA_weights (t_common_linear sa) l_emb g_emb)"

definition TextSA_forward :: "mode \<Rightarrow> noise \<Rightarrow> nat \<Rightarrow> real \<Rightarrow> text_sa \<Rightarrow> tensor3 \<Rightarrow> mat \<Rightarrow> mat" where
  "TextSA_forward md nz i eps sa local raw_global =
     (let weights = TextSA_weights md nz i sa local raw_global;
          new_global = map2 weighted_sum weights local
      in map (l2norm eps) new_global)"

section \<open>AttentionFiltration\<close>

record attention_filtration =
  attn_sim_w :: linear
  saf_bn :: "mode \<Rightarrow> tensor3 \<Rightarrow> tensor3"

definition AttentionFiltration_forward :: "mode \<Rightarrow> real \<Rightarrow> attention_filtration \<Rightarrow> tensor3 \<Rightarrow> mat" where
  "AttentionFiltration_forward md eps saf sim_emb =
     (let sim_attn = map (map (Linear (attn_sim_w saf))) sim_emb;
          sim_attn = transpose021 sim_attn;
          sim_attn = map (map (l1norm eps)) (map (map (map Sigmoid)) (saf_bn saf md sim_attn));
          sim_saf = bmm sim_attn sim_emb
      in map (l2norm eps) (squeeze1 sim_saf))"

section \<open>Construction of layers\<close>

text \<open>
  The constructors of the framework create the learned layers; which values they hold is
  up to the initialiser and to training, so the constructors are parameters. A layer is
  created once for each attribute of a module, and the constructors take the name of that
  attribute. \<^verbatim>\<open>ContrastiveLoss\<close> is imported from \<^verbatim>\<open>layers/contrastive.py\<close>, which is not
  among the sources; its constructor is a parameter as well.
\<close>

record deps =
  new_Linear :: "string \<Rightarrow> nat \<Rightarrow> nat \<Rightarrow> linear"
  new_BatchNorm1D_3 :: "string \<Rightarrow> nat \<Rightarrow> mode \<Rightarrow> tensor3 \<Rightarrow> tensor3"
  new_BatchNorm1D_2 :: "string \<Rightarrow> nat \<Rightarrow> mode \<Rightarrow> mat \<Rightarrow> mat"
  new_Embedding :: "nat \<Rightarrow> nat \<Rightarrow> int list list \<Rightarrow> tensor3"
  new_GRU :: "nat \<Rightarrow> nat \<Rightarrow> nat \<Rightarrow> string \<Rightarrow> tensor3 \<Rightarrow> nat list \<Rightarrow> tensor3 \<times> tensor3"
  new_ContrastiveLoss :: "real \<Rightarrow> bool \<Rightarrow> mat \<Rightarrow> real"

definition VisualSA_init :: "deps \<Rightarrow> nat \<Rightarrow> real \<Rightarrow> nat \<Rightarrow> visual_sa" where
  "VisualSA_init fw embed_dim dropout_rate num_region =
     \<lparr>v_local_linear = new_Linear fw ''v_global_w.embedding_local'' embed_dim embed_dim,
      v_local_bn = new_BatchNorm1D_3 fw ''v_global_w.embedding_local'' num_region,
      v_global_linear = new_Linear fw ''v_global_w.embedding_global'' embed_dim embed_dim,
      v_global_bn = new_BatchNorm1D_2 fw ''v_global_w.embedding_global'' embed_dim,
      v_common_linear = new_Linear fw ''v_global_w.embedding_common'' embed_dim 1,
      v_dropout_rate = dropout_rate\<rparr>"

definition TextSA_init :: "deps \<Rightarrow> nat \<Rightarrow> real \<Rightarrow> text_sa" where
  "TextSA_init fw embed_dim dropout_rate =
     \<lparr>t_local_linear = new_Linear fw ''t_global_w.embedding_local'' embed_dim embed_dim,
      t_global_linear = new_Linear fw ''t_global_w.embedding_global'' embed_dim embed_dim,
      t_common_linear = new_Linear fw ''t_global_w.embedding_common'' embed_dim 1,
      t_dropout_rate = dropout_rate\<rparr>"

definition GraphReasoning_init :: "deps \<Rightarrow> string \<Rightarrow> nat \<Rightarrow> graph_reasoning" where
  "GraphReasoning_init fw name sim_dim =
     \<lparr>graph_query_w = new_Linear fw (name @ ''.graph_query_w'') sim_dim sim_dim,
      graph_key_w = new_Linear fw (name @ ''.graph_key_w'') sim_dim sim_dim,
      sim_graph_w = new_Linear fw (name @ ''.sim_graph_w'') sim_dim sim_dim\<rparr>"

definition AttentionFiltration_init :: "deps \<Rightarrow> nat \<Rightarrow> attention_filtration" where
  "AttentionFiltration_init fw sim_dim =
     \<lparr>attn_sim_w = new_Linear fw ''SAF_module.attn_sim_w'' sim_dim 1,
      saf_bn = new_BatchNorm1D_3 fw ''SAF_module.bn'' 1\<rparr>"

section \<open>EncoderSimilarity\<close>

datatype error = ValueError string | KeyError string | AttributeError string | IndexError

text \<open>The decimal numeral that an f-string prints for a natural number.\<close>

fun str :: "nat \<Rightarrow> string" where
  "str n = (if n < 10 then [char_of (48 + n)] else str (n div 10) @ [char_of (48 + n mod 10)])"

declare str.simps [simp del]

text \<open>The name \<^verbatim>\<open>f'SGR_{i}'\<close> of the \<open>i\<close>-th reasoning layer.\<close>

definition SGR_name :: "nat \<Rightarrow> string" where
  "SGR_name i = ''SGR_'' @ str i"

text \<open>
  \<^verbatim>\<open>nn.Sequential\<close> keeps its sublayers in a dictionary in the order of insertion:
  \<^verbatim>\<open>add_sublayer\<close> replaces the layer of a name that is present and appends otherwise.
\<close>

definition add_sublayer :: "string \<Rightarrow> 'a \<Rightarrow> (string \<times> 'a) list \<Rightarrow> (string \<times> 'a) list" where
  "add_sublayer name layer mods = AList.update name layer mods"

record encoder_similarity =
  module_name_of :: string
  v_global_w :: visual_sa
  t_global_w :: text_sa
  sim_tranloc_w :: linear
  sim_tranglo_w :: linear
  sim_eval_w :: linear
  SGR_module :: "(string \<times> graph_reasoning) list option"
  SAF_module :: "attention_filtration option"

definition EncoderSimilarity_init ::
  "deps \<Rightarrow> nat \<Rightarrow> nat \<Rightarrow> string \<Rightarrow> int \<Rightarrow> error + encoder_similarity" where
  "EncoderSimilarity_init fw embed_size sim_dim name sgr_step =
     (let self = \<lparr>module_name_of = name,
                  v_global_w = VisualSA_init fw embed_size (4 / 10) 36,
                  t_global_w = TextSA_init fw embed_size (4 / 10),
                  sim_tranloc_w = new_Linear fw ''sim_tranloc_w'' embed_size sim_dim,
                  sim_tranglo_w = new_Linear fw ''sim_tranglo_w'' embed_size sim_dim,
                  sim_eval_w = new_Linear fw ''sim_eval_w'' sim_dim 1,
                  SGR_module = None,
                  SAF_module = None\<rparr>
      in if name = ''SGR'' then
           Inr (self\<lparr>SGR_module := Some (fold
                  (\<lambda>i mods. add_sublayer (SGR_name i)
                     (GraphReasoning_init fw (SGR_name i) sim_dim) mods)
                  [0..<nat sgr_step] [])\<rparr>)
         else if name = ''SAF'' then
           Inr (self\<lparr>SAF_module := Some (AttentionFiltration_init fw sim_dim)\<rparr>)
         else Inl (ValueError ''Invalid input of module_name''))"

text \<open>The constructor with its default arguments \<^verbatim>\<open>module_name='AVE', sgr_step=3\<close>.\<close>

definition EncoderSimilarity_init_default :: "deps \<Rightarrow> nat \<Rightarrow> nat \<Rightarrow> error + encoder_similarity" where
  "EncoderSimilarity_init_default fw embed_size sim_dim =
     EncoderSimilarity_init fw embed_size sim_dim ''AVE'' 3"

text \<open>
  The inner loop of \<^verbatim>\<open>forward\<close> in SGR mode: for each index below the number of
  sublayers, the sublayer of the name \<^verbatim>\<open>SGR_{i}\<close> is looked up and applied.
\<close>

fun SGR_loop :: "(string \<times> graph_reasoning) list \<Rightarrow> nat list \<Rightarrow> tensor3 \<Rightarrow> error + tensor3" where
  "SGR_loop mods [] sim_emb = Inr sim_emb"
| "SGR_loop mods (i # is) sim_emb =
     (case map_of mods (SGR_name i) of
        None \<Rightarrow> Inl (KeyError (SGR_name i))
      | Some g \<Rightarrow> SGR_loop mods is (GraphReasoning_forward g sim_emb))"

text \<open>\<^verbatim>\<open>sim_emb[:, 0, :]\<close>: the node of index 0 of every graph of the batch.\<close>

definition index0 :: "tensor3 \<Rightarrow> error + mat" where
  "index0 X = (if list_all (\<lambda>x. x \<noteq> []) X then Inr (map (\<lambda>x. x ! 0) X) else Inl IndexError)"

text \<open>
  The body of the loop over the captions, in the order of the source: the caption
  \<^verbatim>\<open>cap_i\<close> cut to its length, the concatenation \<^verbatim>\<open>sim_emb\<close> of the global and the
  local alignments, the similarity vector \<^verbatim>\<open>sim_vec\<close> and the score \<^verbatim>\<open>sim_i\<close>.
\<close>

definition caption :: "tensor3 \<Rightarrow> nat list \<Rightarrow> nat \<Rightarrow> tensor3" where
  "caption cap_emb cap_lens i = unsqueeze0 (take (cap_lens ! i) (cap_emb ! i))"

definition sim_emb_of ::
  "mode \<Rightarrow> noise \<Rightarrow> real \<Rightarrow> encoder_similarity \<Rightarrow> tensor3 \<Rightarrow> mat \<Rightarrow> tensor3 \<Rightarrow> nat \<Rightarrow> tensor3" where
  "sim_emb_of md nz eps self img_emb img_glo cap_i i =
     (let n_image = length img_emb;
          cap_i_expand = concat0 (replicate n_image cap_i);
          cap_ave_i = map mean_rows cap_i;
          cap_glo_i = TextSA_forward md nz i eps (t_global_w self) cap_i cap_ave_i;
          Context_img = SCAN_attention eps cap_i_expand img_emb 9;
          sim_loc = map (map pow2) (subtract3 Context_img cap_i_expand);
          sim_loc = map (map (\<lambda>v. l2norm eps (Linear (sim_tranloc_w self) v))) sim_loc;
          sim_glo = map pow2 (subtract2 img_glo cap_glo_i);
          sim_glo = map (\<lambda>v. l2norm eps (Linear (sim_tranglo_w self) v)) sim_glo
      in concat1 [unsqueeze1 sim_glo, sim_loc])"

definition sim_vec_of :: "mode \<Rightarrow> real \<Rightarrow> encoder_similarity \<Rightarrow> tensor3 \<Rightarrow> error + mat" where
  "sim_vec_of md eps self sim_emb =
     (if module_name_of self = ''SGR'' then
        (case SGR_module self of
           None \<Rightarrow> Inl (AttributeError ''SGR_module'')
         | Some mods \<Rightarrow>
             (case SGR_loop mods [0..<length mods] sim_emb of
                Inl e \<Rightarrow> Inl e
              | Inr sim_emb \<Rightarrow> index0 sim_emb))
      else
        (case SAF_module self of
           None \<Rightarrow> Inl (AttributeError ''SAF_module'')
         | Some saf \<Rightarrow> Inr (AttentionFiltration_forward md eps saf sim_emb)))"

definition sim_score :: "encoder_similarity \<Rightarrow> mat \<Rightarrow> mat" where
  "sim_score self sim_vec = map (\<lambda>v. map Sigmoid (Linear (sim_eval_w self) v)) sim_vec"

definition sim_i_of ::
  "mode \<Rightarrow> noise \<Rightarrow> real \<Rightarrow> encoder_similarity \<Rightarrow> tensor3 \<Rightarrow> mat \<Rightarrow> tensor3 \<Rightarrow> nat list \<Rightarrow> nat
     \<Rightarrow> error + mat" where
  "sim_i_of md nz eps self img_emb img_glo cap_emb cap_lens i =
     (if length cap_lens \<le> i then Inl IndexError
      else
        (let cap_i = caption cap_emb cap_lens i;
             sim_emb = sim_emb_of md nz eps self img_emb img_glo cap_i i
         in case sim_vec_of md eps self sim_emb of
              Inl e \<Rightarrow> Inl e
            | Inr sim_vec \<Rightarrow> Inr (sim_score self sim_vec)))"

text \<open>The loop over the captions appends each score to \<^verbatim>\<open>sim_all\<close> and stops at an error.\<close>

fun caption_loop :: "(nat \<Rightarrow> error + mat) \<Rightarrow> nat list \<Rightarrow> error + mat list" where
  "caption_loop body [] = Inr []"
| "caption_loop body (i # is) =
     (case body i of
        Inl e \<Rightarrow> Inl e
      | Inr sim_i \<Rightarrow>
          (case caption_loop body is of Inl e \<Rightarrow> Inl e | Inr sim_all \<Rightarrow> Inr (sim_i # sim_all)))"

definition EncoderSimilarity_forward ::
  "mode \<Rightarrow> noise \<Rightarrow> real \<Rightarrow> encoder_similarity \<Rightarrow> tensor3 \<Rightarrow> tensor3 \<Rightarrow> nat list \<Rightarrow> error + mat" where
  "EncoderSimilarity_forward md nz eps self img_emb cap_emb cap_lens =
     (let n_caption = length cap_emb;
          img_ave = map mean_rows img_emb;
          img_glo = VisualSA_forward md nz eps (v_global_w self) img_emb img_ave
      in case caption_loop (sim_i_of md nz eps self img_emb img_glo cap_emb cap_lens) [0..<n_caption] of
           Inl e \<Rightarrow> Inl e
         | Inr sim_all \<Rightarrow> Inr (concat1 sim_all))"

section \<open>The encoders\<close>

record encoder_image =
  img_embed_size :: nat
  img_dim_of :: nat
  img_image_norm :: bool
  fc :: linear

definition EncoderImage_init :: "deps \<Rightarrow> nat \<Rightarrow> nat \<Rightarrow> bool \<Rightarrow> encoder_image" where
  "EncoderImage_init fw img_dim embed_size image_norm =
     \<lparr>img_embed_size = embed_size, img_dim_of = img_dim, img_image_norm = image_norm,
      fc = new_Linear fw ''img_enc.fc'' img_dim embed_size\<rparr>"

definition EncoderImage_forward :: "real \<Rightarrow> encoder_image \<Rightarrow> tensor3 \<Rightarrow> tensor3" where
  "EncoderImage_forward eps self images =
     (let img_emb = map (map (Linear (fc self))) images
      in if img_image_norm self then map (map (l2norm eps)) img_emb else img_emb)"

text \<open>
  The embedding table and the GRU are layers of the framework. The GRU takes the
  embedded words and the lengths of the captions and returns its outputs and its final
  states.
\<close>

record encoder_text =
  txt_embed_size :: nat
  txt_image_norm :: bool
  embed :: "int list list \<Rightarrow> tensor3"
  use_bi_gru :: string
  cap_rnn :: "tensor3 \<Rightarrow> nat list \<Rightarrow> tensor3 \<times> tensor3"

definition EncoderText_init ::
  "deps \<Rightarrow> nat \<Rightarrow> nat \<Rightarrow> nat \<Rightarrow> nat \<Rightarrow> bool \<Rightarrow> bool \<Rightarrow> encoder_text" where
  "EncoderText_init fw vocab_size word_dim embed_size num_layers bi image_norm =
     (let direction = (if bi then ''bidirectional'' else ''forward'')
      in \<lparr>txt_embed_size = embed_size, txt_image_norm = image_norm,
          embed = new_Embedding fw vocab_size word_dim,
          use_bi_gru = direction,
          cap_rnn = new_GRU fw word_dim embed_size num_layers direction\<rparr>)"

text \<open>The output \<^verbatim>\<open>out\<close> of the GRU on the embedded words after dropout.\<close>

definition EncoderText_rnn :: "mode \<Rightarrow> noise \<Rightarrow> encoder_text \<Rightarrow> int list list \<Rightarrow> nat list \<Rightarrow> tensor3" where
  "EncoderText_rnn md nz self captions lengths =
     (let cap_emb = embed self captions;
          cap_emb = Dropout3 md (4 / 10) (txt_drop nz) cap_emb
      in fst (cap_rnn self cap_emb lengths))"

text \<open>
  The word embeddings before the normalisation: in the bidirectional mode the two halves
  of the last axis of \<^verbatim>\<open>out\<close>, cut at \<^verbatim>\<open>int(out.shape[2] / 2)\<close>, are added and halved.
\<close>

definition EncoderText_out :: "mode \<Rightarrow> noise \<Rightarrow> encoder_text \<Rightarrow> int list list \<Rightarrow> nat list \<Rightarrow> tensor3" where
  "EncoderText_out md nz self captions lengths =
     (let out = EncoderText_rnn md nz self captions lengths
      in if use_bi_gru self = ''bidirectional'' then
           map (map (\<lambda>r. map2 (\<lambda>a b. (a + b) / 2)
                             (take (shape2 out div 2) r) (drop (shape2 out div 2) r))) out
         else out)"

definition EncoderText_forward ::
  "mode \<Rightarrow> noise \<Rightarrow> real \<Rightarrow> encoder_text \<Rightarrow> int list list \<Rightarrow> nat list \<Rightarrow> tensor3" where
  "EncoderText_forward md nz eps self captions lengths =
     (let out = EncoderText_out md nz self captions lengths
      in if txt_image_norm self then map (map (l2norm eps)) out else out)"

section \<open>SGRAF\<close>

record sgraf =
  img_enc :: encoder_image
  txt_enc :: encoder_text
  sim_enc :: encoder_similarity
  criterion :: "mat \<Rightarrow> real"

definition SGRAF_init ::
  "deps \<Rightarrow> string \<Rightarrow> int \<Rightarrow> nat \<Rightarrow> nat \<Rightarrow> nat \<Rightarrow> nat \<Rightarrow> nat \<Rightarrow> nat \<Rightarrow> real \<Rightarrow> bool
     \<Rightarrow> bool \<Rightarrow> bool \<Rightarrow> bool \<Rightarrow> error + sgraf" where
  "SGRAF_init fw name sgr_step embed_size sim_dim vocab_size word_dim num_layers image_dim
       margin max_violation bi image_norm text_norm =
     (case EncoderSimilarity_init fw embed_size sim_dim name sgr_step of
        Inl e \<Rightarrow> Inl e
      | Inr sim \<Rightarrow>
          Inr \<lparr>img_enc = EncoderImage_init fw image_dim embed_size image_norm,
               txt_enc = EncoderText_init fw vocab_size word_dim embed_size num_layers bi text_norm,
               sim_enc = sim,
               criterion = new_ContrastiveLoss fw margin max_violation\<rparr>)"

record batch =
  image_feat :: tensor3
  text_token :: "int list list"
  text_len :: "nat list"

definition forward_emb :: "mode \<Rightarrow> noise \<Rightarrow> real \<Rightarrow> sgraf \<Rightarrow> batch \<Rightarrow> tensor3 \<times> tensor3 \<times> nat list" where
  "forward_emb md nz eps self b =
     (let images = image_feat b;
          captions = text_token b;
          lengths = text_len b;
          img_embs = EncoderImage_forward eps (img_enc self) images;
          cap_embs = EncoderText_forward md nz eps (txt_enc self) captions lengths
      in (img_embs, cap_embs, lengths))"

definition forward_sim :: "mode \<Rightarrow> noise \<Rightarrow> real \<Rightarrow> sgraf \<Rightarrow> tensor3 \<times> tensor3 \<times> nat list \<Rightarrow> error + mat" where
  "forward_sim md nz eps self b =
     (case b of (img_embs, cap_embs, cap_lens) \<Rightarrow>
        EncoderSimilarity_forward md nz eps (sim_enc self) img_embs cap_embs cap_lens)"

definition SGRAF_forward :: "mode \<Rightarrow> noise \<Rightarrow> real \<Rightarrow> sgraf \<Rightarrow> batch \<Rightarrow> error + real" where
  "SGRAF_forward md nz eps self b =
     (let images = image_feat b;
          captions = text_token b;
          lengths = text_len b;
          img_embs = EncoderImage_forward eps (img_enc self) images;
          cap_embs = EncoderText_forward md nz eps (txt_enc self) captions lengths
      in case EncoderSimilarity_forward md nz eps (sim_enc self) img_embs cap_embs lengths of
           Inl e \<Rightarrow> Inl e
         | Inr sims \<Rightarrow> Inr (criterion self sims))"

section \<open>Well-shaped layers\<close>








text \<open>The reasoning layers that the constructor creates in SGR mode, in their order.\<close>

definition SGR_layers :: "deps \<Rightarrow> nat \<Rightarrow> int \<Rightarrow> graph_reasoning list" where
  "SGR_layers fw sim_dim sgr_step =
     map (\<lambda>i. GraphReasoning_init fw (SGR_name i) sim_dim) [0..<nat sgr_step]"

text \<open>The value of a decimal numeral, the inverse of \<open>str\<close>.\<close>

definition val_of :: "string \<Rightarrow> nat" where
  "val_of s = foldl (\<lambda>a c. 10 * a + (of_char c - 48)) 0 s"

section \<open>Convex combinations\<close>


definition combination :: "vec \<Rightarrow> mat \<Rightarrow> nat \<Rightarrow> vec" where
  "combination w X d = map (\<lambda>k. \<Sum>r<length w. w ! r * X ! r ! k) [0..<d]"


section \<open>A small instance\<close>

text \<open>
  Constructors that create every linear layer with zero weights and zero bias, batch
  normalisation with statistics that make it the identity, an embedding table of zero
  vectors, a GRU whose outputs are zero vectors of the width of its direction, and a loss
  that is constantly zero. The theorems below are instantiated with them.
\<close>

definition zero_Linear :: "nat \<Rightarrow> nat \<Rightarrow> linear" where
  "zero_Linear n m = \<lparr>weight = replicate n (replicate m 0), bias = replicate m 0\<rparr>"

definition zero_deps :: deps where
  "zero_deps =
     \<lparr>new_Linear = (\<lambda>name n m. zero_Linear n m),
      new_BatchNorm1D_3 = (\<lambda>name c md X. X),
      new_BatchNorm1D_2 = (\<lambda>name c md X. X),
      new_Embedding = (\<lambda>vocab_size word_dim captions. map (map (\<lambda>w. replicate word_dim 0)) captions),
      new_GRU = (\<lambda>word_dim embed_size num_layers direction X lengths.
                  (map (map (\<lambda>x. replicate
                     (if direction = ''bidirectional'' then 2 * embed_size else embed_size) 0)) X, [])),
      new_ContrastiveLoss = (\<lambda>margin max_violation sims. 0)\<rparr>"




text \<open>Masks that keep every entry.\<close>

definition keep_all :: noise where
  "keep_all =
     \<lparr>txt_drop = (\<lambda>i j k. True), v_local_drop = (\<lambda>i j k. True), v_global_drop = (\<lambda>i j. True),
      t_local_drop = (\<lambda>c i j k. True), t_global_drop = (\<lambda>c i j. True)\<rparr>"

section \<open>Shapes, matrix products and softmax\<close>


lemma rect_length: "rect n m A \<Longrightarrow> length A = n"
  by (simp add: rect_def)



lemma rect3_length: "rect3 b n m X \<Longrightarrow> length X = b"
  by (simp add: rect3_def)












lemma length_softmax: "length (softmax xs) = length xs"
  by (simp add: softmax_def)

lemma sum_exp_pos: "xs \<noteq> [] \<Longrightarrow> 0 < sum_list (map exp (xs::real list))"
proof (induction xs)
  case Nil
  then show ?case by simp
next
  case (Cons a xs)
  then show ?case by (cases "xs = []") (simp_all add: add_pos_pos)
qed


lemma softmax_pos: "w \<in> set (softmax xs) \<Longrightarrow> 0 < w"
proof -
  assume "w \<in> set (softmax xs)"
  then obtain x where "x \<in> set xs" "w = exp x / sum_list (map exp xs)"
    by (auto simp: softmax_def)
  moreover then have "xs \<noteq> []" by auto
  ultimately show ?thesis using sum_exp_pos by simp
qed

lemma softmax_nth_pos: "j < length xs \<Longrightarrow> 0 < softmax xs ! j"
  by (rule softmax_pos [of _ xs]) (simp add: length_softmax)













lemma length_l2norm: "length (l2norm eps v) = length v"
  by (simp add: l2norm_def)






lemma length_combination: "length (combination w X d) = d"
  by (simp add: combination_def)






section \<open>The edges of GraphReasoning\<close>







section \<open>The weights of SCAN attention\<close>











section \<open>Self-attention pooling\<close>






















section \<open>The reasoning layers of SGR mode\<close>

lemma val_of_snoc: "val_of (s @ [c]) = 10 * val_of s + (of_char c - 48)"
  by (simp add: val_of_def)

lemma val_of_str: "val_of (str n) = n"
proof (induction n rule: str.induct)
  case (1 n)
  show ?case
  proof (cases "n < 10")
    case True
    then have "str n = [char_of (48 + n)]" by (simp add: str.simps [of n])
    moreover have "of_char (char_of (48 + n) :: char) = 48 + n" using True by simp
    ultimately show ?thesis by (simp add: val_of_def)
  next
    case False
    then have "str n = str (n div 10) @ [char_of (48 + n mod 10)]" by (simp add: str.simps [of n])
    moreover have "of_char (char_of (48 + n mod 10) :: char) = 48 + n mod 10"
      by simp
    moreover have "val_of (str (n div 10)) = n div 10" using 1 False by simp
    ultimately show ?thesis by (simp add: val_of_snoc)
  qed
qed

lemma str_inj: "str n = str m \<Longrightarrow> n = m"
  by (metis val_of_str)


lemma update_fresh: "k \<notin> fst ` set al \<Longrightarrow> AList.update k v al = al @ [(k, v)]"
  by (induction al) auto

lemma fresh_name:
  assumes "inj nm"
  shows "nm n \<notin> fst ` set (map (\<lambda>i. (nm i, f i)) [0..<n])"
proof
  assume "nm n \<in> fst ` set (map (\<lambda>i. (nm i, f i)) [0..<n])"
  then obtain i where "i < n" "nm n = nm i" by auto
  then show False using injD [OF assms, of n i] by simp
qed

lemma build_sublayers:
  assumes "inj nm"
  shows "fold (\<lambda>i mods. add_sublayer (nm i) (f i) mods) [0..<n] [] = map (\<lambda>i. (nm i, f i)) [0..<n]"
proof (induction n)
  case 0
  show ?case by simp
next
  case (Suc n)
  then show ?case using fresh_name [OF assms, of n f] by (simp add: add_sublayer_def update_fresh)
qed

lemma map_of_sublayers:
  assumes "inj nm" "i < n"
  shows "map_of (map (\<lambda>i. (nm i, f i)) [0..<n]) (nm i) = Some (f i)"
  using assms(2)
proof (induction n)
  case 0
  then show ?case by simp
next
  case (Suc n)
  show ?case
  proof (cases "i = n")
    case True
    have "map_of (map (\<lambda>i. (nm i, f i)) [0..<n]) (nm n) = None"
      by (rule map_of_eq_None_iff [THEN iffD2]) (rule fresh_name [OF assms(1)])
    then show ?thesis using True by (simp add: map_add_def)
  next
    case False
    then have "i < n" using Suc.prems by simp
    then show ?thesis using Suc.IH by (simp add: map_add_def)
  qed
qed

lemma inj_SGR_name: "inj SGR_name"
  by (rule injI) (simp add: SGR_name_def str_inj)

lemma SGR_loop_fold:
  assumes "\<forall>i\<in>set js. map_of mods (SGR_name i) = Some (f i)"
  shows "SGR_loop mods js sim_emb = Inr (fold GraphReasoning_forward (map f js) sim_emb)"
  using assms by (induction js arbitrary: sim_emb) simp_all

lemma init_SGR:
  assumes "EncoderSimilarity_init fw embed_size sim_dim ''SGR'' sgr_step = Inr self"
  shows "module_name_of self = ''SGR''"
    and "SGR_module self = Some (map (\<lambda>i. (SGR_name i, GraphReasoning_init fw (SGR_name i) sim_dim)) [0..<nat sgr_step])"
  using assms build_sublayers [OF inj_SGR_name, of "\<lambda>i. GraphReasoning_init fw (SGR_name i) sim_dim" "nat sgr_step"]
  by (auto simp: EncoderSimilarity_init_def Let_def)

lemma sim_vec_of_SGR:
  assumes "EncoderSimilarity_init fw embed_size sim_dim ''SGR'' sgr_step = Inr self"
  shows "sim_vec_of md eps self sim_emb =
     index0 (fold GraphReasoning_forward (SGR_layers fw sim_dim sgr_step) sim_emb)"
proof -
  let ?f = "\<lambda>i. GraphReasoning_init fw (SGR_name i) sim_dim"
  let ?mods = "map (\<lambda>i. (SGR_name i, ?f i)) [0..<nat sgr_step]"
  have "SGR_loop ?mods [0..<length ?mods] sim_emb = Inr (fold GraphReasoning_forward (map ?f [0..<length ?mods]) sim_emb)"
    by (rule SGR_loop_fold) (simp add: map_of_sublayers [OF inj_SGR_name])
  then show ?thesis
    using init_SGR [OF assms] by (simp add: sim_vec_of_def SGR_layers_def)
qed

lemma length_GraphReasoning_forward:
  "map length (GraphReasoning_forward g X) = map length X"
  by (rule nth_equalityI)
     (simp_all add: GraphReasoning_forward_def GraphReasoning_propagate_def GraphReasoning_edge_def
       Let_def bmm_def matmul_def transpose021_def)

lemma length_fold_GraphReasoning:
  "map length (fold GraphReasoning_forward gs X) = map length X"
  by (induction gs arbitrary: X) (simp_all add: length_GraphReasoning_forward)

lemma index0_nonempty: "list_all (\<lambda>x. x \<noteq> []) X \<Longrightarrow> index0 X = Inr (map (\<lambda>x. x ! 0) X)"
  by (simp add: index0_def)

lemma nonempty_fold_GraphReasoning:
  "list_all (\<lambda>x. x \<noteq> []) (fold GraphReasoning_forward gs X) = list_all (\<lambda>x. x \<noteq> []) X"
proof -
  have "list_all (\<lambda>x. x \<noteq> []) Y = list_all (\<lambda>n. n \<noteq> 0) (map length Y)" for Y :: tensor3
    by (simp add: list_all_iff)
  then show ?thesis by (simp only: length_fold_GraphReasoning)
qed

text \<open>
  Claim C9. In SGR mode the constructor creates \<open>sgr_step\<close> reasoning layers, named
  \<^verbatim>\<open>SGR_0\<close>, \<^verbatim>\<open>SGR_1\<close>, ... in this order, and for every caption the similarity vector is
  the node of index 0 of each graph after these layers have been applied one after the
  other to \<^verbatim>\<open>sim_emb\<close>, the concatenation of the global and the local alignments: the
  lookups by name never fail, and no other node enters the vector. (A negative
  \<open>sgr_step\<close> creates no layer.)
\<close>

theorem SGR_mode_sim_vec:
  assumes "EncoderSimilarity_init fw embed_size sim_dim ''SGR'' sgr_step = Inr self"
  shows "length (SGR_layers fw sim_dim sgr_step) = nat sgr_step \<and>
         sim_vec_of md eps self sim_emb =
           index0 (fold GraphReasoning_forward (SGR_layers fw sim_dim sgr_step) sim_emb) \<and>
         (list_all (\<lambda>x. x \<noteq> []) sim_emb \<longrightarrow>
            sim_vec_of md eps self sim_emb =
              Inr (map (\<lambda>x. x ! 0) (fold GraphReasoning_forward (SGR_layers fw sim_dim sgr_step) sim_emb))) \<and>
         (i < length cap_lens \<longrightarrow>
            sim_i_of md nz eps self img_emb img_glo cap_emb cap_lens i =
              map_sum id (sim_score self)
                (index0 (fold GraphReasoning_forward (SGR_layers fw sim_dim sgr_step)
                   (sim_emb_of md nz eps self img_emb img_glo (caption cap_emb cap_lens i) i))))"
proof -
  note V = sim_vec_of_SGR [OF assms]
  have 1: "length (SGR_layers fw sim_dim sgr_step) = nat sgr_step"
    by (simp add: SGR_layers_def)
  have 3: "list_all (\<lambda>x. x \<noteq> []) sim_emb \<longrightarrow>
            sim_vec_of md eps self sim_emb =
              Inr (map (\<lambda>x. x ! 0) (fold GraphReasoning_forward (SGR_layers fw sim_dim sgr_step) sim_emb))"
    by (simp add: V index0_nonempty nonempty_fold_GraphReasoning)
  have 4: "i < length cap_lens \<longrightarrow>
            sim_i_of md nz eps self img_emb img_glo cap_emb cap_lens i =
              map_sum id (sim_score self)
                (index0 (fold GraphReasoning_forward (SGR_layers fw sim_dim sgr_step)
                   (sim_emb_of md nz eps self img_emb img_glo (caption cap_emb cap_lens i) i)))"
    by (simp add: sim_i_of_def Let_def V split: sum.split)
  from 1 V 3 4 show ?thesis by blast
qed


theorem SGR_mode_sim_vec_witness:
  "(\<exists>self. EncoderSimilarity_init zero_deps 1 1 ''SGR'' 3 = Inr self \<and>
      length (SGR_layers zero_deps 1 3) = 3 \<and>
      list_all (\<lambda>x. x \<noteq> []) [[[1::real], [2]]] \<and>
      sim_vec_of Eval 0 self [[[1], [2]]] =
        Inr (map (\<lambda>x. x ! 0) (fold GraphReasoning_forward (SGR_layers zero_deps 1 3) [[[1], [2]]])) \<and>
      (0::nat) < length [1::nat] \<and>
      sim_i_of Eval keep_all 0 self [[[1]]] [[1]] [[[1]]] [1] 0 =
        map_sum id (sim_score self)
          (index0 (fold GraphReasoning_forward (SGR_layers zero_deps 1 3)
             (sim_emb_of Eval keep_all 0 self [[[1]]] [[1]] (caption [[[1]]] [1] 0) 0))))"
proof -
  obtain self where s: "EncoderSimilarity_init zero_deps 1 1 ''SGR'' 3 = Inr self"
    by (simp add: EncoderSimilarity_init_def Let_def)
  show ?thesis
    using SGR_mode_sim_vec [OF s, of Eval 0 "[[[1], [2]]]" 0 "[1]" keep_all "[[[1]]]" "[[1]]" "[[[1]]]"] s
    by auto
qed

section \<open>The similarity matrix\<close>





lemma length_pooling: "length W = b \<Longrightarrow> length local = b \<Longrightarrow>
    length (map (l2norm eps) (map2 weighted_sum W local)) = b"
  by simp







lemma rect3_map_map: "rect3 b n d X \<Longrightarrow> (\<And>v. length v = d \<Longrightarrow> length (f v) = m) \<Longrightarrow>
    rect3 b n m (map (map f) X)"
  by (simp add: rect3_def rect_def list_all_length)

lemma rect_map: "length X = n \<Longrightarrow> (\<And>v. length (f v) = m) \<Longrightarrow> rect n m (map f X)"
  by (simp add: rect_def list_all_length)























section \<open>The text encoder\<close>

lemma shape2_rect3:
  assumes "rect3 b n w X" "0 < b" "0 < n"
  shows "shape2 X = w"
proof -
  obtain x xs where X: "X = x # xs"
    using rect3_length [OF assms(1)] assms(2) by (cases X) auto
  have x: "rect n w x" using assms(1) X by (simp add: rect3_def)
  obtain r rs where r: "x = r # rs"
    using rect_length [OF x] assms(3) by (cases x) auto
  have "length r = w" using x r by (simp add: rect_def)
  then show ?thesis using X r by (simp add: shape2_def shape1_def)
qed

lemma halves:
  assumes "rect3 b n (2 * e) out"
  shows "map (map (\<lambda>r. map2 (\<lambda>a b. (a + b) / 2) (take (shape2 out div 2) r) (drop (shape2 out div 2) r))) out =
         map (map (\<lambda>r. map2 (\<lambda>a b. (a + b) / 2) (take e r) (drop e r))) out"
proof (rule map_cong [OF refl])
  fix x assume x: "x \<in> set out"
  show "map (\<lambda>r. map2 (\<lambda>a b. (a + b) / 2) (take (shape2 out div 2) r) (drop (shape2 out div 2) r)) x =
        map (\<lambda>r. map2 (\<lambda>a b. (a + b) / 2) (take e r) (drop e r)) x"
  proof (rule map_cong [OF refl])
    fix r assume r: "r \<in> set x"
    have "0 < b" using x rect3_length [OF assms] by (cases out) auto
    moreover have "rect n (2 * e) x" using assms x by (simp add: rect3_def list_all_iff)
    then have "0 < n" using r by (cases x) (auto simp: rect_def)
    ultimately have "shape2 out = 2 * e" using shape2_rect3 [OF assms] by simp
    then show "map2 (\<lambda>a b. (a + b) / 2) (take (shape2 out div 2) r) (drop (shape2 out div 2) r) =
           map2 (\<lambda>a b. (a + b) / 2) (take e r) (drop e r)"
      by simp
  qed
qed

text \<open>
  Claim C6. Let the GRU return outputs of shape \<open>(b, L, w)\<close>, where \<open>w\<close> is \<open>embed_size\<close> in
  the forward mode and twice \<open>embed_size\<close> in the bidirectional mode. Then
  \<^verbatim>\<open>EncoderText.forward\<close> returns word embeddings of shape \<open>(b, L, embed_size)\<close> in both
  modes. In the bidirectional mode the output before the normalisation is the mean of the
  first \<open>embed_size\<close> and the last \<open>embed_size\<close> entries of every output of the GRU, in
  the forward mode it is the output of the GRU, and when \<^verbatim>\<open>image_norm\<close> is set every
  word embedding is passed through \<^verbatim>\<open>l2norm\<close>.
\<close>

theorem EncoderText_forward_width:
  assumes "self = EncoderText_init fw vocab_size word_dim embed_size num_layers bi image_norm"
    and "rect3 b L (if bi then 2 * embed_size else embed_size)
           (EncoderText_rnn md nz self captions lengths)"
  shows "rect3 b L embed_size (EncoderText_forward md nz eps self captions lengths) \<and>
         (bi \<longrightarrow> EncoderText_out md nz self captions lengths =
            map (map (\<lambda>r. map2 (\<lambda>x y. (x + y) / 2) (take embed_size r) (drop embed_size r)))
              (EncoderText_rnn md nz self captions lengths)) \<and>
         (\<not> bi \<longrightarrow> EncoderText_out md nz self captions lengths =
            EncoderText_rnn md nz self captions lengths) \<and>
         (image_norm \<longrightarrow> EncoderText_forward md nz eps self captions lengths =
            map (map (l2norm eps)) (EncoderText_out md nz self captions lengths)) \<and>
         (\<not> image_norm \<longrightarrow> EncoderText_forward md nz eps self captions lengths =
            EncoderText_out md nz self captions lengths)"
proof -
  let ?raw = "EncoderText_rnn md nz self captions lengths"
  let ?out = "EncoderText_out md nz self captions lengths"
  have dir: "use_bi_gru self = (if bi then ''bidirectional'' else ''forward'')"
    and norm: "txt_image_norm self = image_norm"
    using assms(1) by (simp_all add: EncoderText_init_def Let_def)
  have 2: "bi \<longrightarrow> ?out = map (map (\<lambda>r. map2 (\<lambda>x y. (x + y) / 2) (take embed_size r) (drop embed_size r))) ?raw"
  proof
    assume bi
    then have "rect3 b L (2 * embed_size) ?raw" using assms(2) by simp
    then have h: "map (map (\<lambda>r. map2 (\<lambda>a b. (a + b) / 2) (take (shape2 ?raw div 2) r) (drop (shape2 ?raw div 2) r))) ?raw =
         map (map (\<lambda>r. map2 (\<lambda>a b. (a + b) / 2) (take embed_size r) (drop embed_size r))) ?raw"
      by (rule halves)
    show "?out = map (map (\<lambda>r. map2 (\<lambda>x y. (x + y) / 2) (take embed_size r) (drop embed_size r))) ?raw"
      using dir \<open>bi\<close> by (simp add: EncoderText_out_def Let_def h)
  qed
  have 3: "\<not> bi \<longrightarrow> ?out = ?raw"
    using dir by (simp add: EncoderText_out_def Let_def)
  have out: "rect3 b L embed_size ?out"
  proof (cases bi)
    case True
    then have "rect3 b L (2 * embed_size) ?raw" using assms(2) by simp
    then have "rect3 b L embed_size
        (map (map (\<lambda>r. map2 (\<lambda>x y. (x + y) / 2) (take embed_size r) (drop embed_size r))) ?raw)"
      by (rule rect3_map_map) simp
    then show ?thesis using 2 True by simp
  next
    case False
    then show ?thesis using 3 assms(2) by simp
  qed
  have 4: "image_norm \<longrightarrow> EncoderText_forward md nz eps self captions lengths = map (map (l2norm eps)) ?out"
    and 5: "\<not> image_norm \<longrightarrow> EncoderText_forward md nz eps self captions lengths = ?out"
    using norm by (simp_all add: EncoderText_forward_def Let_def)
  have 1: "rect3 b L embed_size (EncoderText_forward md nz eps self captions lengths)"
  proof (cases image_norm)
    case True
    have "rect3 b L embed_size (map (map (l2norm eps)) ?out)"
      using out by (rule rect3_map_map) (simp add: length_l2norm)
    then show ?thesis using 4 True by simp
  next
    case False
    then show ?thesis using 5 out by simp
  qed
  from 1 2 3 4 5 show ?thesis by blast
qed

theorem EncoderText_forward_width_witness:
  "rect3 1 2 (if True then 2 * 1 else 1)
     (EncoderText_rnn Eval keep_all (EncoderText_init zero_deps 10 1 1 1 True True) [[1, 2]] [2]) \<and>
   rect3 1 2 1 (EncoderText_forward Eval keep_all 0 (EncoderText_init zero_deps 10 1 1 1 True True) [[1, 2]] [2]) \<and>
   EncoderText_forward Eval keep_all 0 (EncoderText_init zero_deps 10 1 1 1 True True) [[1, 2]] [2] =
     map (map (l2norm 0)) (EncoderText_out Eval keep_all (EncoderText_init zero_deps 10 1 1 1 True True) [[1, 2]] [2])"
proof -
  have r: "rect3 1 2 (if True then 2 * 1 else 1)
     (EncoderText_rnn Eval keep_all (EncoderText_init zero_deps 10 1 1 1 True True) [[1, 2]] [2])"
    by (simp add: EncoderText_rnn_def EncoderText_init_def zero_deps_def Dropout3_def rect3_def rect_def)
  show ?thesis
    using EncoderText_forward_width [OF refl r, of 0] r by blast
qed

text \<open>In training mode the masks matter: dropout with different masks differs.\<close>

lemma Dropout_Train_depends:
  "Dropout Train (4 / 10) (\<lambda>k. True) [1] \<noteq> Dropout Train (4 / 10) (\<lambda>k. False) [1]"
  by (simp add: Dropout_def)

section \<open>Pipeline, construction and evaluation mode\<close>

text \<open>
  Claim C5. For every batch, \<^verbatim>\<open>SGRAF.forward\<close> is the staged pipeline: the loss
  \<^verbatim>\<open>criterion\<close> applied to \<^verbatim>\<open>forward_sim(forward_emb(batch))\<close>, an error of the similarity
  encoder being passed on unchanged. The loss itself is a parameter of the model.
\<close>

theorem SGRAF_forward_staged:
  "SGRAF_forward md nz eps self b =
   map_sum id (criterion self) (forward_sim md nz eps self (forward_emb md nz eps self b))"
  by (simp add: SGRAF_forward_def forward_sim_def forward_emb_def Let_def split: sum.split)

text \<open>
  Claim C8. A module name other than \<^verbatim>\<open>'SGR'\<close> and \<^verbatim>\<open>'SAF'\<close> makes the constructor of
  \<^verbatim>\<open>EncoderSimilarity\<close>, and with it the constructor of \<^verbatim>\<open>SGRAF\<close>, raise \<^verbatim>\<open>ValueError\<close>;
  the constructor called with its default arguments raises it, since \<^verbatim>\<open>'AVE'\<close> is
  such a name.
\<close>

theorem EncoderSimilarity_init_rejects:
  assumes "name \<noteq> ''SGR''" and "name \<noteq> ''SAF''"
  shows "EncoderSimilarity_init fw embed_size sim_dim name sgr_step =
           Inl (ValueError ''Invalid input of module_name'') \<and>
         SGRAF_init fw name sgr_step embed_size sim_dim vocab_size word_dim num_layers image_dim
           margin max_violation bi image_norm text_norm =
           Inl (ValueError ''Invalid input of module_name'') \<and>
         EncoderSimilarity_init_default fw embed_size sim_dim =
           Inl (ValueError ''Invalid input of module_name'')"
  using assms
  by (simp add: EncoderSimilarity_init_default_def EncoderSimilarity_init_def SGRAF_init_def Let_def)

theorem EncoderSimilarity_init_rejects_witness:
  "''AVE'' \<noteq> ''SGR'' \<and> ''AVE'' \<noteq> ''SAF'' \<and>
   EncoderSimilarity_init zero_deps 1024 256 ''AVE'' 3 = Inl (ValueError ''Invalid input of module_name'')"
  using EncoderSimilarity_init_rejects [of "''AVE''" zero_deps 1024 256 3] by simp

subsection \<open>Evaluation mode\<close>

lemma Dropout3_Eval: "Dropout3 Eval p keep X = X"
  by (simp add: Dropout3_def)

lemma Dropout2_Eval: "Dropout2 Eval p keep X = X"
  by (simp add: Dropout2_def)

lemma VisualSA_forward_Eval:
  "VisualSA_forward Eval nz eps sa local raw_global = VisualSA_forward Eval nz' eps sa local raw_global"
  by (simp add: VisualSA_forward_def VisualSA_weights_def VisualSA_embedding_local_def
      VisualSA_embedding_global_def Dropout3_Eval Dropout2_Eval)

lemma TextSA_forward_Eval:
  "TextSA_forward Eval nz i eps sa local raw_global = TextSA_forward Eval nz' i eps sa local raw_global"
  by (simp add: TextSA_forward_def TextSA_weights_def TextSA_embedding_local_def
      TextSA_embedding_global_def Dropout3_Eval Dropout2_Eval)

lemma sim_emb_of_Eval:
  "sim_emb_of Eval nz eps self img_emb img_glo cap_i i = sim_emb_of Eval nz' eps self img_emb img_glo cap_i i"
  by (simp add: sim_emb_of_def TextSA_forward_Eval [of nz _ _ _ _ _ nz'])

lemma sim_i_of_Eval:
  "sim_i_of Eval nz eps self img_emb img_glo cap_emb cap_lens =
   sim_i_of Eval nz' eps self img_emb img_glo cap_emb cap_lens"
  by (rule ext) (simp add: sim_i_of_def sim_emb_of_Eval [of nz _ _ _ _ _ _ nz'])

lemma EncoderSimilarity_forward_Eval:
  "EncoderSimilarity_forward Eval nz eps self img_emb cap_emb cap_lens =
   EncoderSimilarity_forward Eval nz' eps self img_emb cap_emb cap_lens"
  by (simp add: EncoderSimilarity_forward_def VisualSA_forward_Eval [of nz _ _ _ _ nz']
      sim_i_of_Eval [of nz _ _ _ _ _ _ nz'])

lemma EncoderText_forward_Eval:
  "EncoderText_forward Eval nz eps self captions lengths =
   EncoderText_forward Eval nz' eps self captions lengths"
  by (simp add: EncoderText_forward_def EncoderText_out_def EncoderText_rnn_def Dropout3_Eval)

text \<open>
  Claim C10. In evaluation mode dropout is the identity and batch normalisation is a fixed
  function of its input, and then the result of \<^verbatim>\<open>SGRAF.forward\<close> and of
  \<^verbatim>\<open>EncoderSimilarity.forward\<close> does not depend on the random masks: two runs on the same
  inputs with the same parameters, whatever the random generator draws in each, return the
  same output.
\<close>

theorem eval_mode_deterministic:
  "SGRAF_forward Eval nz eps self b = SGRAF_forward Eval nz' eps self b \<and>
   EncoderSimilarity_forward Eval nz eps sim img_emb cap_emb cap_lens =
   EncoderSimilarity_forward Eval nz' eps sim img_emb cap_emb cap_lens"
  by (simp add: SGRAF_forward_def EncoderText_forward_Eval [of nz _ _ _ _ nz']
      EncoderSimilarity_forward_Eval [of nz _ _ _ _ _ nz'])

end
